theory Spec2Isabelle
  imports Main "HOL-Library.AList" "HOL-Library.Log_Nat"
begin

section \<open>Data model\<close>

text \<open>
  The order-fulfilment engine of the repository: the Mongoose models Product, Order,
  Cart and Payment, the order routes (checkout and pay), the order method behind the
  admin status route, and the expiry job.

  Counters and quantities are JavaScript Numbers.  The product methods are modelled
  twice.  On Numbers (finite IEEE-754 doubles, with the rounding of \<open>-=\<close> and \<open>+=\<close>
  written out) they are what the code runs on any quantity it can receive, fractional
  ones included: the cart's update route and the cart and order schemas ask for a
  number of at least one, not for an integer.  On integers (\<^typ>\<open>int\<close>) they are the same
  methods where no rounding happens, and the routes and the expiry job are modelled on
  these: the lemmas \<open>reserveStock_js_of_int\<close>, \<open>releaseReservedStock_js_of_int\<close> and
  \<open>confirmStockDeduction_js_of_int\<close> show that the two agree on integers of magnitude
  below \<open>2 ^ 52\<close>.  Prices are taken in the smallest currency unit, timestamps in
  milliseconds.  Object ids are natural numbers.  The fields \<open>name\<close>, \<open>description\<close> and
  the timestamps of the documents take no part in any operation modelled here and are
  left out.
\<close>

datatype status = PENDING_PAYMENT | PAID | SHIPPED | DELIVERED | CANCELLED

text \<open>
  Every \<open>throw\<close> of the modelled code, and every rejected promise it awaits, is one
  constructor:
  \<^item> \<open>CartEmpty\<close>: \<open>AppError('Cart is empty', 400)\<close>;
  \<^item> \<open>ProductNotFound\<close>: \<open>AppError('Product ... not found', 404)\<close>;
  \<^item> \<open>InsufficientStock\<close>: \<open>AppError('Insufficient stock for product ...', 400)\<close>;
  \<^item> \<open>InsufficientAvailable\<close>: \<open>Error('Insufficient stock available')\<close> of reserveStock;
  \<^item> \<open>InsufficientReservedRelease\<close>: \<open>Error('Insufficient reserved stock to release')\<close>;
  \<^item> \<open>InsufficientReservedConfirm\<close>: \<open>Error('Insufficient reserved stock to confirm')\<close>;
  \<^item> \<open>InvalidTransition\<close>: \<open>Error('Invalid status transition from ... to ...')\<close>;
  \<^item> \<open>OrderNotFound\<close>: \<open>AppError('Order not found', 404)\<close>;
  \<^item> \<open>Unauthorized\<close>: \<open>AppError('Unauthorized access to order', 403)\<close>;
  \<^item> \<open>NotPendingPayment\<close>: \<open>AppError('Order is not in pending payment status', 400)\<close>;
  \<^item> \<open>OrderExpired\<close>: \<open>AppError('Order has expired. Please create a new order.', 400)\<close>;
  \<^item> \<open>NullProduct\<close>: the TypeError of a method call on a populated reference that is null;
  \<^item> \<open>ValidationError\<close>: a \<open>save()\<close> or \<open>create()\<close> rejected by a schema validator;
  \<^item> \<open>EnqueueFailed\<close>: a rejected \<open>emailQueue.add\<close>.
\<close>

datatype error =
    CartEmpty
  | ProductNotFound
  | InsufficientStock nat
  | InsufficientAvailable
  | InsufficientReservedRelease
  | InsufficientReservedConfirm
  | InvalidTransition status status
  | OrderNotFound
  | Unauthorized
  | NotPendingPayment
  | OrderExpired
  | NullProduct
  | ValidationError
  | EnqueueFailed

text \<open>
  The product document of the routes: price and the three stock counters, each with
  \<open>min: 0\<close>, on integers.
\<close>

record product =
  price :: int
  stock :: int
  availableStock :: int
  reservedStock :: int

text \<open>
  A cart item is \<open>{productId, quantity}\<close>; an order item has the same two fields and the
  price snapshot.
\<close>

record line =
  productId :: nat
  quantity :: int

record order_item = line +
  priceAtPurchase :: int

record order =
  userId :: nat
  items :: "order_item list"
  totalAmount :: int
  status :: status
  paymentDeadline :: int

section \<open>JavaScript Numbers\<close>

text \<open>
  A finite Number is the rational it denotes.  \<open>round_double\<close> is the rounding of
  IEEE-754 binary64, to the nearest representable value with ties to the even
  significand: \<open>ilog2\<close> is the exponent of the leading bit, the spacing of the doubles
  around \<open>x\<close> is two to the power \<open>ilog2 \<bar>x\<bar> - 52\<close> (and never below \<open>2 powi - 1074\<close>, the
  spacing of the subnormal numbers), and the significand is rounded to an integer
  number of spacings.  The Number a decimal literal such as \<open>1.2\<close> denotes is
  \<open>round_double (6 / 5)\<close>.  Overflow to infinity, beyond \<open>2 ^ 1024\<close>, is not modelled.
\<close>

definition ilog2 :: "rat \<Rightarrow> int" where
  "ilog2 x = (case quotient_of x of (p, q) \<Rightarrow>
     let k = bitlen p - bitlen q in if 2 powi k \<le> x then k else k - 1)"

definition round_half_even :: "rat \<Rightarrow> int" where
  "round_half_even y =
     (let f = \<lfloor>y\<rfloor>; r = y - of_int f
      in if r < 1 / 2 then f else if 1 / 2 < r then f + 1 else if even f then f else f + 1)"

definition round_double :: "rat \<Rightarrow> rat" where
  "round_double x =
     (if x = 0 then 0
      else let e = max (- 1074) (ilog2 \<bar>x\<bar> - 52)
           in of_int (round_half_even (x / 2 powi e)) * 2 powi e)"

text \<open>\<open>x + y\<close> and \<open>x - y\<close> on Numbers.\<close>

definition js_add :: "rat \<Rightarrow> rat \<Rightarrow> rat" where
  "js_add x y = round_double (x + y)"

definition js_sub :: "rat \<Rightarrow> rat \<Rightarrow> rat" where
  "js_sub x y = round_double (x - y)"

section \<open>Product methods on Numbers\<close>

text \<open>The product document with its Number fields, and the \<open>min: 0\<close> validators.\<close>

record js_product =
  price_js :: rat
  stock_js :: rat
  availableStock_js :: rat
  reservedStock_js :: rat

definition validate_product_js :: "js_product \<Rightarrow> bool" where
  "validate_product_js p \<longleftrightarrow>
     0 \<le> price_js p \<and> 0 \<le> stock_js p \<and> 0 \<le> availableStock_js p \<and>
     0 \<le> reservedStock_js p"

text \<open>
  A document method is a function from the document \<open>this\<close> to the error it throws, if
  any, and the document as the call leaves it in memory.  \<open>None\<close> means that the promise
  of the final \<open>this.save()\<close> resolved, so the returned document is also what the
  collection now stores; with \<open>Some e\<close> nothing was written.
\<close>

definition save_js :: "js_product \<Rightarrow> error option \<times> js_product" where
  "save_js this =
     (if validate_product_js this then (None, this) else (Some ValidationError, this))"

definition reserveStock_js :: "rat \<Rightarrow> js_product \<Rightarrow> error option \<times> js_product" where
  "reserveStock_js q this =
     (if availableStock_js this < q then (Some InsufficientAvailable, this)
      else save_js (this\<lparr>availableStock_js := js_sub (availableStock_js this) q,
                         reservedStock_js := js_add (reservedStock_js this) q\<rparr>))"

definition releaseReservedStock_js :: "rat \<Rightarrow> js_product \<Rightarrow> error option \<times> js_product" where
  "releaseReservedStock_js q this =
     (if reservedStock_js this < q then (Some InsufficientReservedRelease, this)
      else save_js (this\<lparr>reservedStock_js := js_sub (reservedStock_js this) q,
                         availableStock_js := js_add (availableStock_js this) q\<rparr>))"

definition confirmStockDeduction_js :: "rat \<Rightarrow> js_product \<Rightarrow> error option \<times> js_product" where
  "confirmStockDeduction_js q this =
     (if reservedStock_js this < q then (Some InsufficientReservedConfirm, this)
      else save_js (this\<lparr>reservedStock_js := js_sub (reservedStock_js this) q,
                         stock_js := js_sub (stock_js this) q\<rparr>))"

text \<open>An integer document as a Number document.\<close>

definition to_js :: "product \<Rightarrow> js_product" where
  "to_js p = \<lparr>price_js = of_int (price p), stock_js = of_int (stock p),
             availableStock_js = of_int (availableStock p),
             reservedStock_js = of_int (reservedStock p)\<rparr>"

section \<open>Product methods on integers\<close>

text \<open>
  The same validators and methods on documents whose price and counters are integers,
  with integer quantities.
\<close>

definition validate_product :: "product \<Rightarrow> bool" where
  "validate_product p \<longleftrightarrow>
     0 \<le> price p \<and> 0 \<le> stock p \<and> 0 \<le> availableStock p \<and> 0 \<le> reservedStock p"

definition save :: "product \<Rightarrow> error option \<times> product" where
  "save this = (if validate_product this then (None, this) else (Some ValidationError, this))"

definition reserveStock :: "int \<Rightarrow> product \<Rightarrow> error option \<times> product" where
  "reserveStock q this =
     (if availableStock this < q then (Some InsufficientAvailable, this)
      else save (this\<lparr>availableStock := availableStock this - q,
                      reservedStock := reservedStock this + q\<rparr>))"

definition releaseReservedStock :: "int \<Rightarrow> product \<Rightarrow> error option \<times> product" where
  "releaseReservedStock q this =
     (if reservedStock this < q then (Some InsufficientReservedRelease, this)
      else save (this\<lparr>reservedStock := reservedStock this - q,
                      availableStock := availableStock this + q\<rparr>))"

definition confirmStockDeduction :: "int \<Rightarrow> product \<Rightarrow> error option \<times> product" where
  "confirmStockDeduction q this =
     (if reservedStock this < q then (Some InsufficientReservedConfirm, this)
      else save (this\<lparr>reservedStock := reservedStock this - q,
                      stock := stock this - q\<rparr>))"

section \<open>Order methods\<close>

definition validTransitions :: "status \<Rightarrow> status list" where
  "validTransitions s =
     (case s of
        PENDING_PAYMENT \<Rightarrow> [PAID, CANCELLED]
      | PAID \<Rightarrow> [SHIPPED, CANCELLED]
      | SHIPPED \<Rightarrow> [DELIVERED]
      | DELIVERED \<Rightarrow> []
      | CANCELLED \<Rightarrow> [])"

text \<open>
  \<open>updateStatus\<close> throws before it assigns when the target is not listed; otherwise it
  assigns and saves.  The assigned value is a member of the schema's enum, so the save
  of a stored order is not rejected.
\<close>

definition updateStatus :: "status \<Rightarrow> order \<Rightarrow> error option \<times> order" where
  "updateStatus newStatus this =
     (if \<not> List.member (validTransitions (status this)) newStatus
      then (Some (InvalidTransition (status this) newStatus), this)
      else (None, this\<lparr>status := newStatus\<rparr>))"

definition isExpired :: "int \<Rightarrow> order \<Rightarrow> bool" where
  "isExpired now this \<longleftrightarrow> status this = PENDING_PAYMENT \<and> now > paymentDeadline this"

section \<open>Collections, sessions and populated documents\<close>

datatype payment_status = SUCCESS | FAILED

record payment =
  orderId :: nat
  transactionId :: string
  amount :: int
  paymentStatus :: payment_status

text \<open>The payload of a \<open>send-confirmation-email\<close> job: orderId, userId, userEmail, totalAmount.\<close>

datatype job = SendConfirmationEmail nat nat string int

text \<open>\<open>req.user\<close>, as the authentication middleware provides it.\<close>

record user =
  uid :: nat
  email :: string

text \<open>
  The stored state: the MongoDB collections, each a sequence of documents keyed by
  \<open>_id\<close> (carts by their unique \<open>userId\<close>), and the Redis queue of email jobs.
\<close>

record db =
  products :: "(nat \<times> product) list"
  orders :: "(nat \<times> order) list"
  payments :: "payment list"
  carts :: "(nat \<times> line list) list"
  emailQueue :: "job list"

text \<open>
  Both routes run inside \<open>session.withTransaction\<close>, but only \<open>Order.create\<close> and
  \<open>Payment.create\<close> are given \<open>{ session }\<close>.  The queries are built without a session, so
  the documents they return carry none, and every \<open>save()\<close> of such a document writes
  to its collection at once, outside the transaction.  The model therefore keeps two
  things apart: the store, which the session-less saves change directly, and the list
  of writes made through the session, which reach the store when the callback returns
  and are dropped when it throws.
\<close>

datatype session_write = CreateOrder nat order | CreatePayment payment

fun apply_write :: "db \<Rightarrow> session_write \<Rightarrow> db" where
  "apply_write d (CreateOrder oid ord) = d\<lparr>orders := orders d @ [(oid, ord)]\<rparr>"
| "apply_write d (CreatePayment pm) = d\<lparr>payments := payments d @ [pm]\<rparr>"

definition withTransaction ::
  "(db \<Rightarrow> (error + 'a) \<times> session_write list \<times> db) \<Rightarrow> db \<Rightarrow> (error + 'a) \<times> db" where
  "withTransaction callback d =
     (case callback d of
        (Inl e, ws, d') \<Rightarrow> (Inl e, d')
      | (Inr r, ws, d') \<Rightarrow> (Inr r, foldl apply_write d' ws))"

text \<open>
  \<open>populate('items.productId')\<close> replaces each reference by the product document, one
  shared document per product id, or by null when no such product is stored.  The
  populated documents are the association list \<open>docs\<close>, loaded from the collection;
  a missing key is a null reference.  Calling a product method on the reference \<open>pid\<close>
  changes the document in memory and, when its save resolves, the stored product.
\<close>

definition invoke ::
  "(product \<Rightarrow> error option \<times> product) \<Rightarrow> nat \<Rightarrow> (nat \<times> product) list \<Rightarrow> db
     \<Rightarrow> error option \<times> (nat \<times> product) list \<times> db" where
  "invoke method pid docs d =
     (case map_of docs pid of
        None \<Rightarrow> (Some NullProduct, docs, d)
      | Some this \<Rightarrow>
          (case method this of
             (Some e, this') \<Rightarrow> (Some e, AList.update pid this' docs, d)
           | (None, this') \<Rightarrow>
               (None, AList.update pid this' docs,
                d\<lparr>products := AList.update pid this' (products d)\<rparr>)))"

section \<open>Checkout\<close>

text \<open>The loop over \<open>cart.items\<close> of the checkout route.\<close>

fun reserve_cart_items ::
  "line list \<Rightarrow> (nat \<times> product) list \<Rightarrow> db \<Rightarrow> order_item list \<Rightarrow> int
     \<Rightarrow> (error + order_item list \<times> int) \<times> db" where
  "reserve_cart_items [] docs d orderItems totalAmt = (Inr (orderItems, totalAmt), d)"
| "reserve_cart_items (cartItem # rest) docs d orderItems totalAmt =
     (case map_of docs (productId cartItem) of
        None \<Rightarrow> (Inl ProductNotFound, d)
      | Some product \<Rightarrow>
          if availableStock product < quantity cartItem
          then (Inl (InsufficientStock (productId cartItem)), d)
          else
            (case invoke (reserveStock (quantity cartItem)) (productId cartItem) docs d of
               (Some e, docs', d') \<Rightarrow> (Inl e, d')
             | (None, docs', d') \<Rightarrow>
                 reserve_cart_items rest docs' d'
                   (orderItems @ [\<lparr>productId = productId cartItem,
                                   quantity = quantity cartItem,
                                   priceAtPurchase = price product\<rparr>])
                   (totalAmt + price product * quantity cartItem)))"

text \<open>The validators of the order schema that \<open>Order.create\<close> runs.\<close>

definition validate_order :: "order \<Rightarrow> bool" where
  "validate_order ord \<longleftrightarrow>
     0 \<le> totalAmount ord \<and>
     list_all (\<lambda>it. 1 \<le> quantity it \<and> 0 \<le> priceAtPurchase it) (items ord)"

text \<open>
  The callback of the checkout transaction.  \<open>now\<close> is the clock at \<open>Order.create\<close>, from
  which the default \<open>paymentDeadline\<close> is computed, and \<open>newId\<close> is the object id the
  driver gives the new order.
\<close>

definition checkout_transaction ::
  "user \<Rightarrow> int \<Rightarrow> nat \<Rightarrow> db \<Rightarrow> (error + nat \<times> order) \<times> session_write list \<times> db" where
  "checkout_transaction usr now newId d =
     (case map_of (carts d) (uid usr) of
        None \<Rightarrow> (Inl CartEmpty, [], d)
      | Some cartItems \<Rightarrow>
          if length cartItems = 0 then (Inl CartEmpty, [], d)
          else
            (case reserve_cart_items cartItems (products d) d [] 0 of
               (Inl e, d') \<Rightarrow> (Inl e, [], d')
             | (Inr (orderItems, totalAmt), d') \<Rightarrow>
                 (let ord = \<lparr>userId = uid usr, items = orderItems, totalAmount = totalAmt,
                             status = PENDING_PAYMENT,
                             paymentDeadline = now + 15 * 60 * 1000\<rparr>
                  in if \<not> validate_order ord then (Inl ValidationError, [], d')
                     else (Inr (newId, ord), [CreateOrder newId ord],
                           d'\<lparr>carts := AList.update (uid usr) [] (carts d')\<rparr>))))"

definition checkout :: "user \<Rightarrow> int \<Rightarrow> nat \<Rightarrow> db \<Rightarrow> (error + nat \<times> order) \<times> db" where
  "checkout usr now newId = withTransaction (checkout_transaction usr now newId)"

section \<open>Payment\<close>

text \<open>
  The two loops over \<open>order.items\<close> of the pay route call a product method on every
  populated reference, with no test of the reference.
\<close>

fun each_item ::
  "(int \<Rightarrow> product \<Rightarrow> error option \<times> product) \<Rightarrow> order_item list
     \<Rightarrow> (nat \<times> product) list \<Rightarrow> db \<Rightarrow> error option \<times> (nat \<times> product) list \<times> db" where
  "each_item method [] docs d = (None, docs, d)"
| "each_item method (orderItem # rest) docs d =
     (case invoke (method (quantity orderItem)) (productId orderItem) docs d of
        (Some e, docs', d') \<Rightarrow> (Some e, docs', d')
      | (None, docs', d') \<Rightarrow> each_item method rest docs' d')"

text \<open>
  The callback of the pay transaction.  \<open>now\<close> is the clock read by \<open>isExpired\<close>, \<open>txid\<close>
  the transaction id built from the clock and the random generator, and \<open>enqueue_ok\<close>
  tells whether \<open>emailQueue.add\<close> resolves.
\<close>

definition pay_transaction ::
  "nat \<Rightarrow> user \<Rightarrow> int \<Rightarrow> string \<Rightarrow> bool \<Rightarrow> db
     \<Rightarrow> (error + order \<times> payment) \<times> session_write list \<times> db" where
  "pay_transaction oid usr now txid enqueue_ok d =
     (case map_of (orders d) oid of
        None \<Rightarrow> (Inl OrderNotFound, [], d)
      | Some ord \<Rightarrow>
          if userId ord \<noteq> uid usr then (Inl Unauthorized, [], d)
          else if status ord \<noteq> PENDING_PAYMENT then (Inl NotPendingPayment, [], d)
          else if isExpired now ord then
            (let d1 = d\<lparr>orders := AList.update oid (ord\<lparr>status := CANCELLED\<rparr>) (orders d)\<rparr>
             in case each_item releaseReservedStock (items ord) (products d) d1 of
                  (Some e, docs, d2) \<Rightarrow> (Inl e, [], d2)
                | (None, docs, d2) \<Rightarrow> (Inl OrderExpired, [], d2))
          else if totalAmount ord < 0 then (Inl ValidationError, [], d)
          else
            (let pm = \<lparr>orderId = oid, transactionId = txid, amount = totalAmount ord,
                       paymentStatus = SUCCESS\<rparr>;
                 paid = ord\<lparr>status := PAID\<rparr>;
                 d1 = d\<lparr>orders := AList.update oid paid (orders d)\<rparr>
             in case each_item confirmStockDeduction (items ord) (products d) d1 of
                  (Some e, docs, d2) \<Rightarrow> (Inl e, [CreatePayment pm], d2)
                | (None, docs, d2) \<Rightarrow>
                    if enqueue_ok
                    then (Inr (paid, pm), [CreatePayment pm],
                          d2\<lparr>emailQueue := emailQueue d2 @
                               [SendConfirmationEmail oid (uid usr) (email usr) (totalAmount ord)]\<rparr>)
                    else (Inl EnqueueFailed, [CreatePayment pm], d2)))"

definition pay ::
  "nat \<Rightarrow> user \<Rightarrow> int \<Rightarrow> string \<Rightarrow> bool \<Rightarrow> db \<Rightarrow> (error + order \<times> payment) \<times> db" where
  "pay oid usr now txid enqueue_ok = withTransaction (pay_transaction oid usr now txid enqueue_ok)"

section \<open>The expiry job\<close>

text \<open>What a JavaScript function hands back: a number, or \<open>undefined\<close>.\<close>

datatype js_value = Undefined | Number int

definition expiredOrders :: "int \<Rightarrow> db \<Rightarrow> (nat \<times> order) list" where
  "expiredOrders now d =
     filter (\<lambda>(oid, ord). status ord = PENDING_PAYMENT \<and> paymentDeadline ord < now) (orders d)"

text \<open>The release loop of the job tests the populated reference first.\<close>

fun release_if_present ::
  "order_item list \<Rightarrow> (nat \<times> product) list \<Rightarrow> db
     \<Rightarrow> error option \<times> (nat \<times> product) list \<times> db" where
  "release_if_present [] docs d = (None, docs, d)"
| "release_if_present (orderItem # rest) docs d =
     (if map_of docs (productId orderItem) \<noteq> None
      then (case invoke (releaseReservedStock (quantity orderItem)) (productId orderItem) docs d of
              (Some e, docs', d') \<Rightarrow> (Some e, docs', d')
            | (None, docs', d') \<Rightarrow> release_if_present rest docs' d')
      else release_if_present rest docs d)"

text \<open>
  The loop over the expired orders.  Each order is handled inside its own
  \<open>try\<close>/\<open>catch\<close>: an error of the release loop is logged and the next order follows.
\<close>

fun process_expired ::
  "(nat \<times> order) list \<Rightarrow> (nat \<times> product) list \<Rightarrow> db \<Rightarrow> (nat \<times> product) list \<times> db" where
  "process_expired [] docs d = (docs, d)"
| "process_expired ((oid, ord) # rest) docs d =
     (let d1 = d\<lparr>orders := AList.update oid (ord\<lparr>status := CANCELLED\<rparr>) (orders d)\<rparr>
      in case release_if_present (items ord) docs d1 of
           (e, docs', d2) \<Rightarrow> process_expired rest docs' d2)"

definition cancelExpiredOrders :: "int \<Rightarrow> db \<Rightarrow> js_value \<times> db" where
  "cancelExpiredOrders now d =
     (let found = expiredOrders now d
      in if length found = 0 then (Undefined, d)
         else (Undefined, snd (process_expired found (products d) d)))"

section \<open>Notions of the specification\<close>

text \<open>
  The allowed transitions as the specification lists them, as a set of pairs:
  PENDING_PAYMENT to PAID or CANCELLED, PAID to SHIPPED or CANCELLED, SHIPPED to
  DELIVERED, and nothing from DELIVERED or CANCELLED.
\<close>

definition allowed_transitions :: "(status \<times> status) set" where
  "allowed_transitions =
     {(PENDING_PAYMENT, PAID), (PENDING_PAYMENT, CANCELLED),
      (PAID, SHIPPED), (PAID, CANCELLED),
      (SHIPPED, DELIVERED)}"

text \<open>
  Invariant I1 of the specification with the counters non-negative, as the code can
  test it: the sum is the Number addition of the \<open>totalStock\<close> virtual.
\<close>

definition ledger_invariant_js :: "js_product \<Rightarrow> bool" where
  "ledger_invariant_js p \<longleftrightarrow>
     stock_js p = js_add (availableStock_js p) (reservedStock_js p) \<and>
     0 \<le> stock_js p \<and> 0 \<le> availableStock_js p \<and> 0 \<le> reservedStock_js p"

text \<open>An integer of magnitude below \<open>2 ^ 52\<close>.\<close>

definition small_integer :: "rat \<Rightarrow> bool" where
  "small_integer x \<longleftrightarrow> of_int \<lfloor>x\<rfloor> = x \<and> \<bar>x\<bar> < 2 ^ 52"





section \<open>Example states\<close>

definition customer :: user where
  "customer = \<lparr>uid = 7, email = ''user@example.com''\<rparr>"

text \<open>
  A cart of two lines: two units of product 1, which has five available, and one unit
  of product 2, which has none available.
\<close>

definition shop_with_cart :: db where
  "shop_with_cart =
     \<lparr>products = [(1, \<lparr>price = 10, stock = 5, availableStock = 5, reservedStock = 0\<rparr>),
                  (2, \<lparr>price = 7, stock = 3, availableStock = 0, reservedStock = 3\<rparr>)],
      orders = [],
      payments = [],
      carts = [(7, [\<lparr>productId = 1, quantity = 2\<rparr>, \<lparr>productId = 2, quantity = 1\<rparr>])],
      emailQueue = []\<rparr>"

text \<open>A pending order of one line, with its reservation, and a deadline at time 5000.\<close>

definition shop_with_order :: db where
  "shop_with_order =
     \<lparr>products = [(1, \<lparr>price = 10, stock = 5, availableStock = 3, reservedStock = 2\<rparr>)],
      orders = [(1, \<lparr>userId = 7,
                     items = [\<lparr>productId = 1, quantity = 2, priceAtPurchase = 10\<rparr>],
                     totalAmount = 20, status = PENDING_PAYMENT, paymentDeadline = 5000\<rparr>)],
      payments = [],
      carts = [(7, [])],
      emailQueue = []\<rparr>"

text \<open>A pending order of two lines on two products, with both reservations.\<close>

definition shop_with_two_lines :: db where
  "shop_with_two_lines =
     \<lparr>products = [(1, \<lparr>price = 10, stock = 5, availableStock = 3, reservedStock = 2\<rparr>),
                  (2, \<lparr>price = 7, stock = 3, availableStock = 2, reservedStock = 1\<rparr>)],
      orders = [(1, \<lparr>userId = 7,
                     items = [\<lparr>productId = 1, quantity = 2, priceAtPurchase = 10\<rparr>,
                              \<lparr>productId = 2, quantity = 1, priceAtPurchase = 7\<rparr>],
                     totalAmount = 27, status = PENDING_PAYMENT, paymentDeadline = 5000\<rparr>)],
      payments = [],
      carts = [(7, [])],
      emailQueue = []\<rparr>"



section \<open>The rounding\<close>

text \<open>
  \<open>ilog2\<close> is the exponent of the leading bit of a positive rational, and
  \<open>round_double x\<close>, a whole number of spacings by its definition, lies within half a
  spacing of \<open>x\<close>.
\<close>

lemma bitlen_powi_bounds:
  assumes "0 < n"
  shows "(2::rat) powi (bitlen n - 1) \<le> of_int n" and "of_int n < (2::rat) powi bitlen n"
proof -
  from assms have b: "2 ^ nat (bitlen n - 1) \<le> n" "n < 2 ^ nat (bitlen n)"
    using bitlen_bounds [of n] by simp_all
  from assms have pos: "0 \<le> bitlen n - 1"
    by (auto simp: bitlen_alt_def)
  have "(2::rat) powi (bitlen n - 1) = of_int (2 ^ nat (bitlen n - 1))"
    using pos by (simp add: power_int_def)
  also have "\<dots> \<le> of_int n"
    using b(1) by (simp only: of_int_le_iff)
  finally show "(2::rat) powi (bitlen n - 1) \<le> of_int n" .
  have "(of_int n :: rat) < of_int (2 ^ nat (bitlen n))"
    using b(2) by (simp only: of_int_less_iff)
  also have "\<dots> = 2 powi bitlen n"
    using pos by (simp add: power_int_def)
  finally show "of_int n < (2::rat) powi bitlen n" .
qed

lemma ilog2_bounds:
  assumes "0 < x"
  shows "2 powi ilog2 x \<le> x \<and> x < 2 powi (ilog2 x + 1)"
proof -
  obtain p q where pq: "quotient_of x = (p, q)" by (cases "quotient_of x")
  then have q: "0 < q" and x: "x = of_int p / of_int q"
    by (simp_all add: quotient_of_denom_pos quotient_of_div)
  with assms have p: "0 < p"
    by (simp add: zero_less_divide_iff)
  define k where "k = bitlen p - bitlen q"
  note bp = bitlen_powi_bounds [OF p] and bq = bitlen_powi_bounds [OF q]
  have qpos: "(0::rat) < of_int q" using q by simp
  have low: "2 powi (k - 1) \<le> x"
  proof -
    have "(2::rat) powi (k - 1) = 2 powi (bitlen p - 1) / 2 powi bitlen q"
      by (simp add: k_def power_int_diff)
    also have "\<dots> \<le> of_int p / 2 powi bitlen q"
      using bp(1) by (simp add: divide_right_mono)
    also have "\<dots> \<le> of_int p / of_int q"
      using bq(2) p qpos by (intro divide_left_mono) (auto intro: mult_pos_pos)
    finally show ?thesis by (simp add: x)
  qed
  have high: "x < 2 powi (k + 1)"
  proof -
    have "x < 2 powi bitlen p / of_int q"
      using bp(2) qpos by (simp add: x divide_strict_right_mono)
    also have "\<dots> \<le> 2 powi bitlen p / 2 powi (bitlen q - 1)"
      using bq(1) qpos by (intro divide_left_mono) (auto intro: mult_pos_pos)
    also have "\<dots> = 2 powi (k + 1)"
      by (simp add: k_def power_int_diff power_int_add)
    finally show ?thesis .
  qed
  show ?thesis
  proof (cases "2 powi k \<le> x")
    case True
    then have "ilog2 x = k" by (simp add: ilog2_def pq k_def Let_def)
    with True high show ?thesis by simp
  next
    case False
    then have "ilog2 x = k - 1" by (simp add: ilog2_def pq k_def Let_def)
    with False low show ?thesis by simp
  qed
qed

lemma round_half_even_close: "\<bar>of_int (round_half_even y) - y\<bar> \<le> 1 / 2"
proof -
  have "0 \<le> y - of_int \<lfloor>y\<rfloor>" and "y - of_int \<lfloor>y\<rfloor> < 1"
    by linarith+
  then show ?thesis
    unfolding round_half_even_def Let_def
    by (simp add: abs_if) linarith
qed

lemma round_double_close:
  assumes "x \<noteq> 0"
  shows "\<bar>round_double x - x\<bar> \<le> 2 powi (max (- 1074) (ilog2 \<bar>x\<bar> - 52)) / 2"
proof -
  define e where "e = max (- 1074) (ilog2 \<bar>x\<bar> - 52)"
  have pos: "(0::rat) < 2 powi e" by simp
  have "round_double x - x = (of_int (round_half_even (x / 2 powi e)) - x / 2 powi e) * 2 powi e"
    using assms pos by (simp add: round_double_def e_def Let_def field_simps)
  then have "\<bar>round_double x - x\<bar> = \<bar>of_int (round_half_even (x / 2 powi e)) - x / 2 powi e\<bar> * 2 powi e"
    using pos by (simp add: abs_mult)
  also have "\<dots> \<le> 1 / 2 * 2 powi e"
    using round_half_even_close [of "x / 2 powi e"] pos by (intro mult_right_mono) auto
  finally show ?thesis by (simp add: e_def)
qed

section \<open>Number arithmetic on integers\<close>

text \<open>An integer below \<open>2 ^ 53\<close> in magnitude is a Number, and rounding leaves it alone.\<close>

lemma round_half_even_of_int: "round_half_even (of_int m) = m"
  by (simp add: round_half_even_def)

lemma ilog2_of_int:
  assumes "0 < n"
  shows "ilog2 (of_int n) = bitlen n - 1"
proof -
  from assms have b: "2 ^ nat (bitlen n - 1) \<le> n"
    using bitlen_bounds [of n] by simp
  from assms have pos: "0 \<le> bitlen n - 1"
    by (auto simp: bitlen_alt_def)
  have one: "bitlen 1 = 1"
    by (simp add: bitlen_alt_def)
  have "(2::rat) powi (bitlen n - 1) = of_int (2 ^ nat (bitlen n - 1))"
    using pos by (simp add: power_int_def)
  also have "\<dots> \<le> of_int n"
    using b by (simp only: of_int_le_iff)
  finally show ?thesis
    by (simp add: ilog2_def one Let_def)
qed

lemma ilog2_of_int_le:
  assumes "0 < n" and "n < 2 ^ 53"
  shows "ilog2 (of_int n) \<le> 52"
proof -
  from assms(1) have "2 ^ nat (bitlen n - 1) \<le> n"
    using bitlen_bounds [of n] by simp
  with assms(2) have "(2::int) ^ nat (bitlen n - 1) < 2 ^ 53"
    by simp
  then have "nat (bitlen n - 1) < 53"
    by (simp only: power_strict_increasing_iff [of 2] one_less_numeral_iff semiring_norm)
  then show ?thesis
    using assms(1) by (simp add: ilog2_of_int)
qed

lemma round_double_of_int:
  assumes "\<bar>n\<bar> < 2 ^ 53"
  shows "round_double (of_int n) = of_int n"
proof (cases "n = 0")
  case True
  then show ?thesis by (simp add: round_double_def)
next
  case False
  define e where "e = max (- 1074) (ilog2 \<bar>of_int n\<bar> - 52)"
  have "\<bar>(of_int n :: rat)\<bar> = of_int \<bar>n\<bar>" by simp
  moreover have "ilog2 (of_int \<bar>n\<bar>) \<le> 52"
    using False assms by (intro ilog2_of_int_le) auto
  ultimately have e: "e \<le> 0"
    by (simp add: e_def)
  define k where "k = nat (- e)"
  have pw: "(2::rat) powi e = 1 / 2 ^ k"
    using e by (auto simp: power_int_def k_def field_simps)
  have scaled: "(of_int n :: rat) / 2 powi e = of_int (n * 2 ^ k)"
    by (simp add: pw)
  have "round_double (of_int n) = of_int (round_half_even (of_int n / 2 powi e)) * 2 powi e"
    using False by (simp add: round_double_def e_def Let_def)
  also have "\<dots> = of_int (n * 2 ^ k) * 2 powi e"
    by (simp only: scaled round_half_even_of_int)
  also have "\<dots> = of_int (n * 2 ^ k) * (1 / 2 ^ k)"
    by (simp only: pw)
  also have "\<dots> = of_int n"
    by simp
  finally show ?thesis .
qed

lemma round_double_Ints:
  assumes "x \<in> \<int>" and "\<bar>x\<bar> < 2 ^ 53"
  shows "round_double x = x"
proof -
  from assms(1) obtain n where x: "x = of_int n" by (auto elim: Ints_cases)
  with assms(2) have "(of_int \<bar>n\<bar> :: rat) < of_int (2 ^ 53)" by simp
  then have "\<bar>n\<bar> < 2 ^ 53" by (simp only: of_int_less_iff)
  from round_double_of_int [OF this] x show ?thesis by simp
qed

lemma small_integer_Ints: "small_integer x \<Longrightarrow> x \<in> \<int>"
  by (metis small_integer_def Ints_of_int)

lemma small_integer_sum:
  assumes "small_integer x" and "small_integer y"
  shows "\<bar>x + y\<bar> < 2 ^ 53"
proof -
  from assms have "\<bar>x\<bar> < 2 ^ 52" and "\<bar>y\<bar> < 2 ^ 52"
    by (simp_all add: small_integer_def)
  moreover have "\<bar>x + y\<bar> \<le> \<bar>x\<bar> + \<bar>y\<bar>" by (rule abs_triangle_ineq)
  moreover have "(2::rat) ^ 53 = 2 ^ 52 + 2 ^ 52" by simp
  ultimately show ?thesis by linarith
qed

lemma small_integer_diff:
  assumes "small_integer x" and "small_integer y"
  shows "\<bar>x - y\<bar> < 2 ^ 53"
proof -
  from assms have "\<bar>x\<bar> < 2 ^ 52" and "\<bar>y\<bar> < 2 ^ 52"
    by (simp_all add: small_integer_def)
  moreover have "\<bar>x - y\<bar> \<le> \<bar>x\<bar> + \<bar>y\<bar>" by (rule abs_triangle_ineq4)
  moreover have "(2::rat) ^ 53 = 2 ^ 52 + 2 ^ 52" by simp
  ultimately show ?thesis by linarith
qed

lemma js_add_small:
  assumes "small_integer x" and "small_integer y"
  shows "js_add x y = x + y"
proof -
  from assms have "x + y \<in> \<int>" by (simp add: small_integer_Ints)
  moreover from assms have "\<bar>x + y\<bar> < 2 ^ 53" by (rule small_integer_sum)
  ultimately show ?thesis by (simp add: js_add_def round_double_Ints)
qed

lemma js_sub_small:
  assumes "small_integer x" and "small_integer y"
  shows "js_sub x y = x - y"
proof -
  from assms have "x - y \<in> \<int>" by (simp add: small_integer_Ints)
  moreover from assms have "\<bar>x - y\<bar> < 2 ^ 53" by (rule small_integer_diff)
  ultimately show ?thesis by (simp add: js_sub_def round_double_Ints)
qed

lemma js_add_exact:
  assumes "x \<in> \<int>" and "y \<in> \<int>" and "\<bar>x + y\<bar> < 2 ^ 53"
  shows "js_add x y = x + y"
  using assms by (simp add: js_add_def round_double_Ints)

lemma js_sub_exact:
  assumes "x \<in> \<int>" and "y \<in> \<int>" and "\<bar>x - y\<bar> < 2 ^ 53"
  shows "js_sub x y = x - y"
  using assms by (simp add: js_sub_def round_double_Ints)

lemma small_integer_of_int: "small_integer (of_int n) \<longleftrightarrow> \<bar>n\<bar> < 2 ^ 52"
proof -
  have "(\<bar>rat_of_int n\<bar> < 2 ^ 52) = (rat_of_int \<bar>n\<bar> < rat_of_int (2 ^ 52))"
    by simp
  also have "\<dots> = (\<bar>n\<bar> < 2 ^ 52)"
    by (simp only: of_int_less_iff)
  finally show ?thesis by (simp add: small_integer_def)
qed

text \<open>
  On integers of magnitude below \<open>2 ^ 52\<close> the Number methods are the integer methods.
\<close>

lemma reserveStock_js_of_int:
  assumes "\<bar>availableStock p\<bar> < 2 ^ 52" and "\<bar>reservedStock p\<bar> < 2 ^ 52" and "\<bar>q\<bar> < 2 ^ 52"
  shows "reserveStock_js (of_int q) (to_js p)
           = (fst (reserveStock q p), to_js (snd (reserveStock q p)))"
proof -
  from assms have "js_sub (of_int (availableStock p)) (of_int q) = of_int (availableStock p - q)"
    and "js_add (of_int (reservedStock p)) (of_int q) = of_int (reservedStock p + q)"
    by (simp_all add: js_sub_small js_add_small small_integer_of_int)
  then show ?thesis
    by (simp add: reserveStock_js_def reserveStock_def save_js_def save_def to_js_def
        validate_product_js_def validate_product_def)
qed

lemma releaseReservedStock_js_of_int:
  assumes "\<bar>availableStock p\<bar> < 2 ^ 52" and "\<bar>reservedStock p\<bar> < 2 ^ 52" and "\<bar>q\<bar> < 2 ^ 52"
  shows "releaseReservedStock_js (of_int q) (to_js p)
           = (fst (releaseReservedStock q p), to_js (snd (releaseReservedStock q p)))"
proof -
  from assms have "js_add (of_int (availableStock p)) (of_int q) = of_int (availableStock p + q)"
    and "js_sub (of_int (reservedStock p)) (of_int q) = of_int (reservedStock p - q)"
    by (simp_all add: js_sub_small js_add_small small_integer_of_int)
  then show ?thesis
    by (simp add: releaseReservedStock_js_def releaseReservedStock_def save_js_def save_def
        to_js_def validate_product_js_def validate_product_def)
qed

lemma confirmStockDeduction_js_of_int:
  assumes "\<bar>stock p\<bar> < 2 ^ 52" and "\<bar>reservedStock p\<bar> < 2 ^ 52" and "\<bar>q\<bar> < 2 ^ 52"
  shows "confirmStockDeduction_js (of_int q) (to_js p)
           = (fst (confirmStockDeduction q p), to_js (snd (confirmStockDeduction q p)))"
proof -
  from assms have "js_sub (of_int (stock p)) (of_int q) = of_int (stock p - q)"
    and "js_sub (of_int (reservedStock p)) (of_int q) = of_int (reservedStock p - q)"
    by (simp_all add: js_sub_small small_integer_of_int)
  then show ?thesis
    by (simp add: confirmStockDeduction_js_def confirmStockDeduction_def save_js_def save_def
        to_js_def validate_product_js_def validate_product_def)
qed

section \<open>Properties of the stock ledger\<close>

text \<open>
  C3.  The claim: from every product record with \<open>stock == availableStock + reservedStock\<close>
  and non-negative counters, each ledger operation that succeeds leaves such a record.
  The methods take any Number as quantity, and with fractional quantities the
  subtraction and the addition round differently.  From stock 4, available 4,
  reserved 0, reserving 1.2 leaves 2.8 and 1.2, whose Number sum is still 4 (the exact
  sum of the two Numbers is already below 4); reserving 1.1 after that succeeds and
  leaves 1.6999999999999997 and 2.3, whose sum is 3.9999999999999996 and not 4.
\<close>

theorem ledger_invariant_counterexample:
  "ledger_invariant_js
     \<lparr>price_js = 10, stock_js = 4, availableStock_js = 4, reservedStock_js = 0\<rparr> \<and>
   reserveStock_js (round_double (6 / 5))
     \<lparr>price_js = 10, stock_js = 4, availableStock_js = 4, reservedStock_js = 0\<rparr>
     = (None, \<lparr>price_js = 10, stock_js = 4,
               availableStock_js = 3152519739159347 / 1125899906842624,
               reservedStock_js = 5404319552844595 / 4503599627370496\<rparr>) \<and>
   ledger_invariant_js
     \<lparr>price_js = 10, stock_js = 4,
      availableStock_js = 3152519739159347 / 1125899906842624,
      reservedStock_js = 5404319552844595 / 4503599627370496\<rparr> \<and>
   (3152519739159347 / 1125899906842624 :: rat) + 5404319552844595 / 4503599627370496 \<noteq> 4 \<and>
   reserveStock_js (round_double (11 / 10))
     \<lparr>price_js = 10, stock_js = 4,
      availableStock_js = 3152519739159347 / 1125899906842624,
      reservedStock_js = 5404319552844595 / 4503599627370496\<rparr>
     = (None, \<lparr>price_js = 10, stock_js = 4,
               availableStock_js = 3828059683264921 / 2251799813685248,
               reservedStock_js = 2589569785738035 / 1125899906842624\<rparr>) \<and>
   \<not> ledger_invariant_js
     \<lparr>price_js = 10, stock_js = 4,
      availableStock_js = 3828059683264921 / 2251799813685248,
      reservedStock_js = 2589569785738035 / 1125899906842624\<rparr>"
  by code_simp


text \<open>
  C3, as amended.  For every product record whose three counters are integers of
  magnitude below \<open>2 ^ 52\<close>, with \<open>stock == availableStock + reservedStock\<close> and the
  counters non-negative, and for every integer quantity of magnitude below \<open>2 ^ 52\<close>,
  each of reserveStock, releaseReservedStock and confirmStockDeduction that succeeds
  leaves a record with the same equation and non-negative counters.
\<close>

theorem ledger_invariant_on_integers:
  assumes inv: "ledger_invariant_js p"
    and small: "small_integer (stock_js p)" "small_integer (availableStock_js p)"
      "small_integer (reservedStock_js p)" "small_integer q"
  shows "(reserveStock_js q p = (None, p') \<longrightarrow> ledger_invariant_js p') \<and>
         (releaseReservedStock_js q p = (None, p') \<longrightarrow> ledger_invariant_js p') \<and>
         (confirmStockDeduction_js q p = (None, p') \<longrightarrow> ledger_invariant_js p')"
proof -
  let ?s = "stock_js p" and ?a = "availableStock_js p" and ?r = "reservedStock_js p"
  note ints = small [THEN small_integer_Ints]
  from inv small have eq: "?s = ?a + ?r"
    by (simp add: ledger_invariant_js_def js_add_small)
  have aq: "js_sub ?a q = ?a - q" and rq: "js_add ?r q = ?r + q"
    and rq': "js_sub ?r q = ?r - q" and aq': "js_add ?a q = ?a + q"
    and sq: "js_sub ?s q = ?s - q"
    using small by (simp_all add: js_add_small js_sub_small)
  have "\<bar>?s\<bar> < 2 ^ 53"
    using small(1) by (simp add: small_integer_def)
  then have sum1: "js_add (?a - q) (?r + q) = ?s"
    using ints eq by (subst js_add_exact) auto
  from \<open>\<bar>?s\<bar> < 2 ^ 53\<close> have sum2: "js_add (?a + q) (?r - q) = ?s"
    using ints eq by (subst js_add_exact) auto
  have "\<bar>?s - q\<bar> < 2 ^ 53"
    using small(1,4) by (rule small_integer_diff)
  then have sum3: "js_add ?a (?r - q) = ?s - q"
    using ints eq by (subst js_add_exact) auto
  have reserve: "ledger_invariant_js p'" if run: "reserveStock_js q p = (None, p')"
  proof -
    from run have p': "p' = p\<lparr>availableStock_js := ?a - q, reservedStock_js := ?r + q\<rparr>"
      and v: "validate_product_js p'"
      by (auto simp: reserveStock_js_def save_js_def aq rq split: if_splits)
    from v sum1 show ?thesis
      by (simp add: p' ledger_invariant_js_def validate_product_js_def)
  qed
  have release: "ledger_invariant_js p'" if run: "releaseReservedStock_js q p = (None, p')"
  proof -
    from run have p': "p' = p\<lparr>reservedStock_js := ?r - q, availableStock_js := ?a + q\<rparr>"
      and v: "validate_product_js p'"
      by (auto simp: releaseReservedStock_js_def save_js_def aq' rq' split: if_splits)
    from v sum2 show ?thesis
      by (simp add: p' ledger_invariant_js_def validate_product_js_def)
  qed
  have confirm: "ledger_invariant_js p'" if run: "confirmStockDeduction_js q p = (None, p')"
  proof -
    from run have p': "p' = p\<lparr>reservedStock_js := ?r - q, stock_js := ?s - q\<rparr>"
      and v: "validate_product_js p'"
      by (auto simp: confirmStockDeduction_js_def save_js_def sq rq' split: if_splits)
    from v sum3 show ?thesis
      by (simp add: p' ledger_invariant_js_def validate_product_js_def)
  qed
  from reserve release confirm show ?thesis by blast
qed


theorem ledger_invariant_on_integers_witness:
  "ledger_invariant_js
     \<lparr>price_js = 10, stock_js = 5, availableStock_js = 3, reservedStock_js = 2\<rparr> \<and>
   reserveStock_js 2
     \<lparr>price_js = 10, stock_js = 5, availableStock_js = 3, reservedStock_js = 2\<rparr>
     = (None, \<lparr>price_js = 10, stock_js = 5, availableStock_js = 1, reservedStock_js = 4\<rparr>) \<and>
   ledger_invariant_js
     \<lparr>price_js = 10, stock_js = 5, availableStock_js = 1, reservedStock_js = 4\<rparr> \<and>
   releaseReservedStock_js 2
     \<lparr>price_js = 10, stock_js = 5, availableStock_js = 3, reservedStock_js = 2\<rparr>
     = (None, \<lparr>price_js = 10, stock_js = 5, availableStock_js = 5, reservedStock_js = 0\<rparr>) \<and>
   ledger_invariant_js
     \<lparr>price_js = 10, stock_js = 5, availableStock_js = 5, reservedStock_js = 0\<rparr> \<and>
   confirmStockDeduction_js 2
     \<lparr>price_js = 10, stock_js = 5, availableStock_js = 3, reservedStock_js = 2\<rparr>
     = (None, \<lparr>price_js = 10, stock_js = 3, availableStock_js = 3, reservedStock_js = 0\<rparr>) \<and>
   ledger_invariant_js
     \<lparr>price_js = 10, stock_js = 3, availableStock_js = 3, reservedStock_js = 0\<rparr>"
proof -
  let ?p = "\<lparr>price_js = 10, stock_js = 5, availableStock_js = 3, reservedStock_js = 2\<rparr>"
  let ?p1 = "\<lparr>price_js = 10, stock_js = 5, availableStock_js = 1, reservedStock_js = 4\<rparr>"
  let ?p2 = "\<lparr>price_js = 10, stock_js = 5, availableStock_js = 5, reservedStock_js = 0\<rparr>"
  let ?p3 = "\<lparr>price_js = 10, stock_js = 3, availableStock_js = 3, reservedStock_js = 0\<rparr>"
  have inv: "ledger_invariant_js ?p"
    by code_simp
  have s1: "small_integer (stock_js ?p)" and s2: "small_integer (availableStock_js ?p)"
    and s3: "small_integer (reservedStock_js ?p)" and s4: "small_integer 2"
    by (simp_all add: small_integer_def)
  have run1: "reserveStock_js 2 ?p = (None, ?p1)"
    by code_simp
  have run2: "releaseReservedStock_js 2 ?p = (None, ?p2)"
    by code_simp
  have run3: "confirmStockDeduction_js 2 ?p = (None, ?p3)"
    by code_simp
  from ledger_invariant_on_integers [OF inv s1 s2 s3 s4, of ?p1] run1
  have i1: "ledger_invariant_js ?p1" by blast
  from ledger_invariant_on_integers [OF inv s1 s2 s3 s4, of ?p2] run2
  have i2: "ledger_invariant_js ?p2" by blast
  from ledger_invariant_on_integers [OF inv s1 s2 s3 s4, of ?p3] run3
  have i3: "ledger_invariant_js ?p3" by blast
  from inv run1 run2 run3 i1 i2 i3 show ?thesis by blast
qed

text \<open>
  C8.  The claim: reserving \<open>q\<close> and then releasing \<open>q\<close> gives back the three counters
  exactly.  With a fractional quantity it does not: from available 2, reserved 1,
  reserving 1.2 leaves 0.8 and 2.2, and releasing 1.2 leaves available 2 but reserved
  1.0000000000000002.
\<close>

theorem reserve_then_release_counterexample:
  "reserveStock_js (round_double (6 / 5))
     \<lparr>price_js = 10, stock_js = 3, availableStock_js = 2, reservedStock_js = 1\<rparr>
     = (None, \<lparr>price_js = 10, stock_js = 3,
               availableStock_js = 3602879701896397 / 4503599627370496,
               reservedStock_js = 2476979795053773 / 1125899906842624\<rparr>) \<and>
   releaseReservedStock_js (round_double (6 / 5))
     \<lparr>price_js = 10, stock_js = 3,
      availableStock_js = 3602879701896397 / 4503599627370496,
      reservedStock_js = 2476979795053773 / 1125899906842624\<rparr>
     = (None, \<lparr>price_js = 10, stock_js = 3, availableStock_js = 2,
               reservedStock_js = 4503599627370497 / 4503599627370496\<rparr>) \<and>
   releaseReservedStock_js (round_double (6 / 5))
     \<lparr>price_js = 10, stock_js = 3,
      availableStock_js = 3602879701896397 / 4503599627370496,
      reservedStock_js = 2476979795053773 / 1125899906842624\<rparr>
     \<noteq> (None, \<lparr>price_js = 10, stock_js = 3, availableStock_js = 2,
                reservedStock_js = 1\<rparr>)"
  by code_simp


text \<open>
  C8, as amended.  For a valid product document whose \<open>availableStock\<close> and
  \<open>reservedStock\<close> are integers and an integer quantity \<open>q\<close> not above \<open>availableStock\<close>
  (all of magnitude below \<open>2 ^ 52\<close>): when \<open>q\<close> is not below \<open>- reservedStock\<close>, so for
  every quantity from zero on, reserveStock \<open>q\<close> succeeds and releaseReservedStock \<open>q\<close>
  on its result succeeds and stores exactly the document from before the reservation;
  otherwise the reservation is rejected by the validators and nothing is stored.
\<close>

theorem reserve_then_release_on_integers:
  assumes valid: "validate_product_js p"
    and le: "q \<le> availableStock_js p"
    and small: "small_integer (availableStock_js p)" "small_integer (reservedStock_js p)"
      "small_integer q"
  shows "(- reservedStock_js p \<le> q \<longrightarrow>
            (\<exists>p1. reserveStock_js q p = (None, p1) \<and>
                  releaseReservedStock_js q p1 = (None, p))) \<and>
         (q < - reservedStock_js p \<longrightarrow> fst (reserveStock_js q p) = Some ValidationError)"
proof -
  let ?a = "availableStock_js p" and ?r = "reservedStock_js p"
  let ?p1 = "p\<lparr>availableStock_js := ?a - q, reservedStock_js := ?r + q\<rparr>"
  note ints = small [THEN small_integer_Ints]
  have aq: "js_sub ?a q = ?a - q" and rq: "js_add ?r q = ?r + q"
    using small by (simp_all add: js_add_small js_sub_small)
  have "\<bar>?r\<bar> < 2 ^ 53" and "\<bar>?a\<bar> < 2 ^ 53"
    using small by (simp_all add: small_integer_def)
  then have back_r: "js_sub (?r + q) q = ?r" and back_a: "js_add (?a - q) q = ?a"
    using ints by (simp_all add: js_sub_exact js_add_exact)
  have run: "reserveStock_js q p = save_js ?p1"
    using le by (simp add: reserveStock_js_def aq rq)
  have ok: "reserveStock_js q p = (None, ?p1) \<and> releaseReservedStock_js q ?p1 = (None, p)"
    if "- ?r \<le> q"
  proof -
    from that valid le have "validate_product_js ?p1"
      by (simp add: validate_product_js_def)
    with run have "reserveStock_js q p = (None, ?p1)"
      by (simp add: save_js_def)
    moreover from valid have "releaseReservedStock_js q ?p1 = (None, p)"
      by (simp add: releaseReservedStock_js_def save_js_def validate_product_js_def
          back_r back_a)
    ultimately show ?thesis by simp
  qed
  have bad: "fst (reserveStock_js q p) = Some ValidationError" if "q < - ?r"
    using that run by (simp add: save_js_def validate_product_js_def)
  from ok bad show ?thesis by blast
qed

theorem reserve_then_release_on_integers_witness:
  "validate_product_js
     \<lparr>price_js = 10, stock_js = 5, availableStock_js = 3, reservedStock_js = 2\<rparr> \<and>
   reserveStock_js 2
     \<lparr>price_js = 10, stock_js = 5, availableStock_js = 3, reservedStock_js = 2\<rparr>
     = (None, \<lparr>price_js = 10, stock_js = 5, availableStock_js = 1, reservedStock_js = 4\<rparr>) \<and>
   releaseReservedStock_js 2
     \<lparr>price_js = 10, stock_js = 5, availableStock_js = 1, reservedStock_js = 4\<rparr>
     = (None, \<lparr>price_js = 10, stock_js = 5, availableStock_js = 3, reservedStock_js = 2\<rparr>)"
proof -
  let ?p = "\<lparr>price_js = 10, stock_js = 5, availableStock_js = 3, reservedStock_js = 2\<rparr>"
  let ?p1 = "\<lparr>price_js = 10, stock_js = 5, availableStock_js = 1, reservedStock_js = 4\<rparr>"
  have v: "validate_product_js ?p"
    by (simp add: validate_product_js_def)
  have le: "2 \<le> availableStock_js ?p"
    by simp
  have s1: "small_integer (availableStock_js ?p)" and s2: "small_integer (reservedStock_js ?p)"
    and s3: "small_integer 2"
    by (simp_all add: small_integer_def)
  have run: "reserveStock_js 2 ?p = (None, ?p1)"
    by code_simp
  have "- reservedStock_js ?p \<le> 2"
    by simp
  with reserve_then_release_on_integers [OF v le s1 s2 s3]
  obtain p1 where "reserveStock_js 2 ?p = (None, p1)"
    and "releaseReservedStock_js 2 p1 = (None, ?p)"
    by blast
  with run have "releaseReservedStock_js 2 ?p1 = (None, ?p)"
    by simp
  with v run show ?thesis by blast
qed

text \<open>
  C9.  The claim: with \<open>reservedStock\<close> at least \<open>q\<close>, confirming \<open>q\<close> lowers \<open>stock\<close> and
  \<open>reservedStock\<close> by exactly \<open>q\<close>.  With the fractional quantity 1.1 on stock 8 the
  stored stock is 6.9, which is neither 8 minus the quantity nor a Number whose
  difference from 8 is the quantity.  And with stock 1 and reserved 2, confirming 2
  takes the stock below zero, the save is rejected, and the stored stock is not
  lowered at all.
\<close>

theorem confirm_deducts_counterexample:
  "confirmStockDeduction_js (round_double (11 / 10))
     \<lparr>price_js = 10, stock_js = 8, availableStock_js = 5, reservedStock_js = 3\<rparr>
     = (None, \<lparr>price_js = 10, stock_js = 3884354678607053 / 562949953421312,
               availableStock_js = 5,
               reservedStock_js = 4278419646001971 / 2251799813685248\<rparr>) \<and>
   8 - (3884354678607053 / 562949953421312 :: rat) \<noteq> round_double (11 / 10) \<and>
   js_sub 8 (3884354678607053 / 562949953421312) \<noteq> round_double (11 / 10) \<and>
   confirmStockDeduction_js 2
     \<lparr>price_js = 10, stock_js = 1, availableStock_js = 0, reservedStock_js = 2\<rparr>
     = (Some ValidationError,
        \<lparr>price_js = 10, stock_js = - 1, availableStock_js = 0, reservedStock_js = 0\<rparr>)"
  by code_simp


text \<open>
  C9, as amended.  For a valid product document with integer \<open>stock\<close> and
  \<open>reservedStock\<close> and an integer quantity \<open>q\<close> (all of magnitude below \<open>2 ^ 52\<close>) with
  \<open>reservedStock\<close> at least \<open>q\<close> and \<open>stock\<close> at least \<open>q\<close>, confirmStockDeduction \<open>q\<close>
  succeeds and stores the document with \<open>stock\<close> lowered by exactly \<open>q\<close>,
  \<open>reservedStock\<close> lowered by exactly \<open>q\<close>, and \<open>availableStock\<close> and the price as they
  were.
\<close>

theorem confirm_deducts_on_integers:
  assumes valid: "validate_product_js p"
    and le: "q \<le> reservedStock_js p" "q \<le> stock_js p"
    and small: "small_integer (stock_js p)" "small_integer (reservedStock_js p)"
      "small_integer q"
  shows "confirmStockDeduction_js q p =
           (None, p\<lparr>reservedStock_js := reservedStock_js p - q, stock_js := stock_js p - q\<rparr>)"
proof -
  have "js_sub (reservedStock_js p) q = reservedStock_js p - q"
    and "js_sub (stock_js p) q = stock_js p - q"
    using small by (simp_all add: js_sub_small)
  with valid le show ?thesis
    by (simp add: confirmStockDeduction_js_def save_js_def validate_product_js_def)
qed

theorem confirm_deducts_on_integers_witness:
  "validate_product_js
     \<lparr>price_js = 10, stock_js = 5, availableStock_js = 3, reservedStock_js = 2\<rparr> \<and>
   confirmStockDeduction_js 2
     \<lparr>price_js = 10, stock_js = 5, availableStock_js = 3, reservedStock_js = 2\<rparr>
     = (None, \<lparr>price_js = 10, stock_js = 3, availableStock_js = 3, reservedStock_js = 0\<rparr>)"
proof -
  let ?p = "\<lparr>price_js = 10, stock_js = 5, availableStock_js = 3, reservedStock_js = 2\<rparr>"
  have v: "validate_product_js ?p"
    by (simp add: validate_product_js_def)
  have le: "2 \<le> reservedStock_js ?p" "2 \<le> stock_js ?p"
    by simp_all
  have s1: "small_integer (stock_js ?p)" and s2: "small_integer (reservedStock_js ?p)"
    and s3: "small_integer 2"
    by (simp_all add: small_integer_def)
  from confirm_deducts_on_integers [OF v le s1 s2 s3] v show ?thesis
    by simp
qed

section \<open>Properties of the order status\<close>

text \<open>
  C5.  For every current status and every target, updateStatus succeeds and sets the
  status to the target exactly when the pair is in the specification's table of
  allowed transitions; for every other pair it fails with the invalid-transition error
  and leaves the order as it was.  A transition from a status to itself is always such
  a failure.
\<close>

theorem updateStatus_table:
  "updateStatus target ord =
     (if (status ord, target) \<in> allowed_transitions
      then (None, ord\<lparr>status := target\<rparr>)
      else (Some (InvalidTransition (status ord) target), ord)) \<and>
   updateStatus (status ord) ord = (Some (InvalidTransition (status ord) (status ord)), ord)"
  by (cases "status ord"; cases target)
     (simp_all add: updateStatus_def validTransitions_def allowed_transitions_def)

theorem updateStatus_table_witness:
  "updateStatus SHIPPED
     \<lparr>userId = 7, items = [], totalAmount = 0, status = PAID, paymentDeadline = 5000\<rparr>
     = (None, \<lparr>userId = 7, items = [], totalAmount = 0, status = SHIPPED,
               paymentDeadline = 5000\<rparr>) \<and>
   updateStatus PENDING_PAYMENT
     \<lparr>userId = 7, items = [], totalAmount = 0, status = PAID, paymentDeadline = 5000\<rparr>
     = (Some (InvalidTransition PAID PENDING_PAYMENT),
        \<lparr>userId = 7, items = [], totalAmount = 0, status = PAID, paymentDeadline = 5000\<rparr>)"
  using
    updateStatus_table [of SHIPPED
      "\<lparr>userId = 7, items = [], totalAmount = 0, status = PAID, paymentDeadline = 5000\<rparr>"]
    updateStatus_table [of PENDING_PAYMENT
      "\<lparr>userId = 7, items = [], totalAmount = 0, status = PAID, paymentDeadline = 5000\<rparr>"]
  by (simp add: allowed_transitions_def)

section \<open>What the loops leave alone\<close>

lemmas run_defs =
  checkout_def pay_def withTransaction_def checkout_transaction_def pay_transaction_def
  invoke_def reserveStock_def releaseReservedStock_def confirmStockDeduction_def save_def
  validate_product_def validate_order_def isExpired_def cancelExpiredOrders_def
  expiredOrders_def customer_def

lemma invoke_frame:
  assumes "invoke m pid docs d = (e, docs', d')"
  shows "orders d' = orders d \<and> payments d' = payments d \<and> carts d' = carts d \<and>
         emailQueue d' = emailQueue d"
  using assms by (auto simp: invoke_def split: option.splits prod.splits)


lemma each_item_frame:
  "each_item m its docs d = (e, docs', d') \<Longrightarrow>
     orders d' = orders d \<and> payments d' = payments d \<and> carts d' = carts d \<and>
     emailQueue d' = emailQueue d"
proof (induction its arbitrary: docs d)
  case Nil
  then show ?case by simp
next
  case (Cons it its)
  obtain e1 docs1 d1 where inv: "invoke (m (quantity it)) (productId it) docs d = (e1, docs1, d1)"
    by (metis prod_cases3)
  note fr = invoke_frame [OF inv]
  show ?case
  proof (cases e1)
    case None
    with Cons.prems inv have "each_item m its docs1 d1 = (e, docs', d')" by simp
    from Cons.IH [OF this] fr show ?thesis by simp
  next
    case (Some err)
    with Cons.prems inv have "d' = d1" by simp
    with fr show ?thesis by simp
  qed
qed

lemma release_if_present_frame:
  "release_if_present its docs d = (e, docs', d') \<Longrightarrow>
     orders d' = orders d \<and> payments d' = payments d \<and> carts d' = carts d \<and>
     emailQueue d' = emailQueue d"
proof (induction its arbitrary: docs d)
  case Nil
  then show ?case by simp
next
  case (Cons it its)
  show ?case
  proof (cases "map_of docs (productId it)")
    case None
    with Cons.prems have "release_if_present its docs d = (e, docs', d')" by simp
    from Cons.IH [OF this] show ?thesis .
  next
    case (Some p)
    obtain e1 docs1 d1 where
      inv: "invoke (releaseReservedStock (quantity it)) (productId it) docs d = (e1, docs1, d1)"
      by (metis prod_cases3)
    note fr = invoke_frame [OF inv]
    show ?thesis
    proof (cases e1)
      case None
      with Cons.prems inv Some have "release_if_present its docs1 d1 = (e, docs', d')" by simp
      from Cons.IH [OF this] fr show ?thesis by simp
    next
      case (Some err)
      with Cons.prems inv \<open>map_of docs (productId it) = Some p\<close> have "d' = d1" by simp
      with fr show ?thesis by simp
    qed
  qed
qed

lemma process_expired_orders:
  assumes "distinct (map fst os)"
  shows "map_of (orders (snd (process_expired os docs d))) oid =
           (case map_of os oid of
              Some ord \<Rightarrow> Some (ord\<lparr>status := CANCELLED\<rparr>)
            | None \<Rightarrow> map_of (orders d) oid)"
  using assms
proof (induction os arbitrary: docs d)
  case Nil
  then show ?case by simp
next
  case (Cons x os)
  obtain o1 ord1 where x: "x = (o1, ord1)" by (cases x)
  let ?d1 = "d\<lparr>orders := AList.update o1 (ord1\<lparr>status := CANCELLED\<rparr>) (orders d)\<rparr>"
  obtain e docs2 d2 where rel: "release_if_present (items ord1) docs ?d1 = (e, docs2, d2)"
    by (metis prod_cases3)
  from release_if_present_frame [OF rel]
  have ord2: "orders d2 = AList.update o1 (ord1\<lparr>status := CANCELLED\<rparr>) (orders d)" by simp
  from Cons.prems x have dist: "distinct (map fst os)" and fresh: "map_of os o1 = None"
    by (auto simp: map_of_eq_None_iff)
  have step: "process_expired (x # os) docs d = process_expired os docs2 d2"
    using x rel by simp
  show ?case
    unfolding step Cons.IH [OF dist] ord2 update_conv'
    using x fresh by (auto split: option.splits)
qed

lemma map_of_filter_distinct:
  assumes "distinct (map fst al)"
  shows "map_of (filter P al) k =
           (case map_of al k of Some v \<Rightarrow> if P (k, v) then Some v else None | None \<Rightarrow> None)"
  using assms
proof (induction al)
  case Nil
  then show ?case by simp
next
  case (Cons x al)
  obtain k1 v1 where x: "x = (k1, v1)" by (cases x)
  from Cons.prems x have dist: "distinct (map fst al)" and fresh: "k1 \<notin> fst ` set al"
    by auto
  from fresh have none: "map_of (filter P al) k1 = None"
    by (auto simp: map_of_eq_None_iff)
  from fresh have none': "map_of al k1 = None"
    by (simp add: map_of_eq_None_iff)
  show ?case
    using Cons.IH [OF dist] x none none' by (auto split: option.splits)
qed

section \<open>Releasing the reservations of order lines\<close>

















section \<open>The orders after the expiry job\<close>

lemma sweep_run:
  "cancelExpiredOrders now d
     = (Undefined, snd (process_expired (expiredOrders now d) (products d) d))"
  by (cases "expiredOrders now d") (simp_all add: cancelExpiredOrders_def Let_def)

lemma sweep_orders:
  assumes "distinct (map fst (orders d))"
  shows "map_of (orders (snd (cancelExpiredOrders now d))) oid =
           (case map_of (orders d) oid of
              Some ord \<Rightarrow>
                if status ord = PENDING_PAYMENT \<and> paymentDeadline ord < now
                then Some (ord\<lparr>status := CANCELLED\<rparr>) else Some ord
            | None \<Rightarrow> None)"
proof -
  let ?found = "expiredOrders now d"
  have dist: "distinct (map fst ?found)"
    using assms by (simp add: expiredOrders_def distinct_map_filter)
  have found: "map_of ?found oid =
      (case map_of (orders d) oid of
         Some ord \<Rightarrow> if status ord = PENDING_PAYMENT \<and> paymentDeadline ord < now
                     then Some ord else None
       | None \<Rightarrow> None)"
    unfolding expiredOrders_def map_of_filter_distinct [OF assms]
    by (simp split: option.splits)
  show ?thesis
    unfolding sweep_run using process_expired_orders [OF dist, of "products d" d oid] found
    by (auto split: option.splits)
qed

section \<open>Properties of checkout\<close>

text \<open>
  C1.  The claim: when a line of a checkout fails, no reservation of another line of
  the same checkout stays applied.  The route reserves line by line with
  \<open>product.reserveStock\<close>, whose save is not bound to the session, so the abort of the
  transaction does not undo it.  With the cart of \<^const>\<open>shop_with_cart\<close> the second line
  fails for lack of available stock, and the reservation of two units of product 1
  made for the first line is still in the store afterwards: \<open>availableStock\<close> 3 and
  \<open>reservedStock\<close> 2 instead of 5 and 0.
\<close>

theorem checkout_leaves_reservation:
  "checkout customer 1000 1 shop_with_cart =
     (Inl (InsufficientStock 2),
      shop_with_cart\<lparr>products :=
        [(1, \<lparr>price = 10, stock = 5, availableStock = 3, reservedStock = 2\<rparr>),
         (2, \<lparr>price = 7, stock = 3, availableStock = 0, reservedStock = 3\<rparr>)]\<rparr>)"
  by (simp add: run_defs shop_with_cart_def)

section \<open>Properties of payment\<close>

text \<open>
  C2.  The claim: payment record, transition to PAID and stock confirmation become
  visible together or not at all.  Only \<open>Payment.create\<close> runs in the session; the save
  of the order and the saves of the products do not.  When the callback throws after
  them, here because the enqueue is rejected, the payment record is dropped with the
  transaction while the order stays PAID and the stock stays deducted.
\<close>

theorem pay_not_atomic:
  "pay 1 customer 1000 ''TXN_1000_abc'' False shop_with_order =
     (Inl EnqueueFailed,
      \<lparr>products = [(1, \<lparr>price = 10, stock = 3, availableStock = 3, reservedStock = 0\<rparr>)],
       orders = [(1, \<lparr>userId = 7,
                      items = [\<lparr>productId = 1, quantity = 2, priceAtPurchase = 10\<rparr>],
                      totalAmount = 20, status = PAID, paymentDeadline = 5000\<rparr>)],
       payments = [],
       carts = [(7, [])],
       emailQueue = []\<rparr>)"
  by (simp add: run_defs shop_with_order_def)

text \<open>
  C6.  The claim: a failed enqueue leaves the order PAID, the stock confirmed and the
  payment record in place.  The enqueue is awaited inside the transaction callback, so
  its rejection aborts the transaction and the payment record created through the
  session is gone: for the two-line order of \<^const>\<open>shop_with_two_lines\<close> the call fails
  and no payment record is stored.
\<close>

theorem pay_enqueue_failure_counterexample:
  "fst (pay 1 customer 1000 ''TXN_1000_abc'' False shop_with_two_lines) = Inl EnqueueFailed \<and>
   payments (snd (pay 1 customer 1000 ''TXN_1000_abc'' False shop_with_two_lines)) = []"
  by (simp add: run_defs shop_with_two_lines_def)

text \<open>
  C6, as amended.  For every pay call of the owner on a pending order that is not
  expired, a failing enqueue makes the call fail, and the transaction is aborted: no
  payment record is added and no job is queued.
\<close>

theorem pay_enqueue_failure:
  assumes "map_of (orders d) oid = Some ord" and "userId ord = uid usr"
    and "status ord = PENDING_PAYMENT" and "\<not> isExpired now ord"
  shows "(\<exists>e. fst (pay oid usr now txid False d) = Inl e) \<and>
         payments (snd (pay oid usr now txid False d)) = payments d \<and>
         emailQueue (snd (pay oid usr now txid False d)) = emailQueue d"
proof (cases "totalAmount ord < 0")
  case True
  with assms show ?thesis
    by (simp add: pay_def withTransaction_def pay_transaction_def)
next
  case False
  let ?d1 = "d\<lparr>orders := AList.update oid (ord\<lparr>status := PAID\<rparr>) (orders d)\<rparr>"
  obtain e docs2 d2 where
    loop: "each_item confirmStockDeduction (items ord) (products d) ?d1 = (e, docs2, d2)"
    by (metis prod_cases3)
  from each_item_frame [OF loop]
  have fr: "payments d2 = payments d" "emailQueue d2 = emailQueue d" by simp_all
  from assms False loop fr show ?thesis
    by (cases e) (simp_all add: pay_def withTransaction_def pay_transaction_def Let_def)
qed


theorem pay_enqueue_failure_witness:
  "map_of (orders shop_with_two_lines) 1
     = Some \<lparr>userId = 7,
             items = [\<lparr>productId = 1, quantity = 2, priceAtPurchase = 10\<rparr>,
                      \<lparr>productId = 2, quantity = 1, priceAtPurchase = 7\<rparr>],
             totalAmount = 27, status = PENDING_PAYMENT, paymentDeadline = 5000\<rparr> \<and>
   (\<exists>e. fst (pay 1 customer 1000 ''TXN_1'' False shop_with_two_lines) = Inl e) \<and>
   payments (snd (pay 1 customer 1000 ''TXN_1'' False shop_with_two_lines))
     = payments shop_with_two_lines \<and>
   emailQueue (snd (pay 1 customer 1000 ''TXN_1'' False shop_with_two_lines))
     = emailQueue shop_with_two_lines"
proof -
  let ?ord = "\<lparr>userId = 7,
             items = [\<lparr>productId = 1, quantity = 2, priceAtPurchase = 10\<rparr>,
                      \<lparr>productId = 2, quantity = 1, priceAtPurchase = 7\<rparr>],
             totalAmount = 27, status = PENDING_PAYMENT, paymentDeadline = 5000\<rparr>"
  have found: "map_of (orders shop_with_two_lines) 1 = Some ?ord"
    by (simp add: shop_with_two_lines_def)
  have owner: "userId ?ord = uid customer"
    by (simp add: customer_def)
  have pending: "status ?ord = PENDING_PAYMENT"
    by simp
  have fresh: "\<not> isExpired 1000 ?ord"
    by (simp add: isExpired_def)
  from pay_enqueue_failure [OF found owner pending fresh, of "''TXN_1''"] found
  show ?thesis by blast
qed




section \<open>Properties of the expiry job\<close>

text \<open>
  C7.  The claim: the sweep returns the number of orders it cancelled.
  \<open>cancelExpiredOrders\<close> has no return value: in \<^const>\<open>shop_with_order\<close> at time 6000 it
  finds one expired order and cancels it, and what it hands back is \<open>undefined\<close>, not 1.
\<close>

theorem sweep_count_counterexample:
  "length (expiredOrders 6000 shop_with_order) = 1 \<and>
   map_option status (map_of (orders (snd (cancelExpiredOrders 6000 shop_with_order))) 1)
     = Some CANCELLED \<and>
   fst (cancelExpiredOrders 6000 shop_with_order) \<noteq> Number 1"
  by (simp add: run_defs shop_with_order_def)

text \<open>
  C7, as amended.  On every invocation \<open>cancelExpiredOrders\<close> returns no value, and it
  drives to CANCELLED exactly the orders it finds with status PENDING_PAYMENT and a
  payment deadline before now; every other order is left as it is.  (Order ids are
  unique in the collection.)
\<close>

theorem sweep_returns_undefined:
  assumes "distinct (map fst (orders d))"
  shows "fst (cancelExpiredOrders now d) = Undefined \<and>
         map_of (orders (snd (cancelExpiredOrders now d))) oid =
           (case map_of (orders d) oid of
              Some ord \<Rightarrow>
                if status ord = PENDING_PAYMENT \<and> paymentDeadline ord < now
                then Some (ord\<lparr>status := CANCELLED\<rparr>) else Some ord
            | None \<Rightarrow> None)"
proof
  show "fst (cancelExpiredOrders now d) = Undefined"
    by (simp add: sweep_run)
  from assms show "map_of (orders (snd (cancelExpiredOrders now d))) oid =
           (case map_of (orders d) oid of
              Some ord \<Rightarrow>
                if status ord = PENDING_PAYMENT \<and> paymentDeadline ord < now
                then Some (ord\<lparr>status := CANCELLED\<rparr>) else Some ord
            | None \<Rightarrow> None)"
    by (rule sweep_orders)
qed

theorem sweep_returns_undefined_witness:
  "distinct (map fst (orders shop_with_order)) \<and>
   fst (cancelExpiredOrders 6000 shop_with_order) = Undefined \<and>
   map_of (orders (snd (cancelExpiredOrders 6000 shop_with_order))) 1
     = Some \<lparr>userId = 7,
             items = [\<lparr>productId = 1, quantity = 2, priceAtPurchase = 10\<rparr>],
             totalAmount = 20, status = CANCELLED, paymentDeadline = 5000\<rparr>"
proof -
  have dist: "distinct (map fst (orders shop_with_order))"
    by (simp add: shop_with_order_def)
  from sweep_returns_undefined [OF dist, of 6000 1] dist
  show ?thesis by (simp add: shop_with_order_def)
qed



end
